theory Spec2Isabelle
  imports Main
begin

section \<open>Values, exceptions and dictionaries\<close>

text \<open>
  Python values that travel through the protocol layer are the values of the JSON codec.
  \<open>None\<close> is \<open>JNull\<close>: a decoded JSON null and an unset attribute are the same object in
  the source. Numbers are restricted to integers. A dictionary is an association list in
  insertion order; a Python dictionary has pairwise distinct keys.
\<close>

datatype json =
    JNull
  | JBool bool
  | JInt int
  | JStr string
  | JList "json list"
  | JObj "(string \<times> json) list"

type_synonym dict = "(string \<times> json) list"

text \<open>The exception classes the source can raise.\<close>

datatype error = TypeError | ValueError | AttributeError | NotImplementedError | NameError

text \<open>\<open>d[k] = v\<close>: an existing key keeps its position, a new key is appended.\<close>

fun dict_set :: "('k \<times> 'v) list \<Rightarrow> 'k \<Rightarrow> 'v \<Rightarrow> ('k \<times> 'v) list" where
  "dict_set [] k v = [(k, v)]"
| "dict_set ((k', v') # d) k v =
     (if k' = k then (k, v) # d else (k', v') # dict_set d k v)"

text \<open>\<open>NoneDict.__getitem__\<close> (utils.py): a missing key reads as \<open>None\<close>.\<close>

definition NoneDict_getitem :: "dict \<Rightarrow> string \<Rightarrow> json" where
  "NoneDict_getitem d key = (case map_of d key of None \<Rightarrow> JNull | Some v \<Rightarrow> v)"

section \<open>Strings\<close>

definition CRLF :: string where
  "CRLF = [CHR 0x0D, CHR 0x0A]"

text \<open>\<open>str.endswith\<close>.\<close>

definition endswith :: "string \<Rightarrow> string \<Rightarrow> bool" where
  "endswith s suf = (length suf \<le> length s \<and> drop (length s - length suf) s = suf)"

text \<open>
  The characters \<open>str.strip()\<close> removes from a text string: those of the first 256 code
  points for which \<open>isspace\<close> holds.
\<close>

definition is_space :: "char \<Rightarrow> bool" where
  "is_space c =
     (c \<in> set [CHR 0x20, CHR 0x09, CHR 0x0A, CHR 0x0B, CHR 0x0C, CHR 0x0D,
                CHR 0x1C, CHR 0x1D, CHR 0x1E, CHR 0x1F, CHR 0x85, CHR 0xA0])"

definition strip :: "string \<Rightarrow> string" where
  "strip s = rev (dropWhile is_space (rev (dropWhile is_space s)))"

text \<open>\<open>s.split(sep)\<close> for a one-character separator: one piece more than separators.\<close>

fun split_char :: "char \<Rightarrow> string \<Rightarrow> string list" where
  "split_char sep [] = [[]]"
| "split_char sep (c # cs) =
     (if c = sep then [] # split_char sep cs
      else (case split_char sep cs of
              [] \<Rightarrow> [[c]]
            | p # ps \<Rightarrow> (c # p) # ps))"

definition is_digit :: "char \<Rightarrow> bool" where
  "is_digit c = (c \<in> set ''0123456789'')"

fun digits_value :: "nat \<Rightarrow> string \<Rightarrow> nat" where
  "digits_value acc [] = acc"
| "digits_value acc (c # cs) = digits_value (10 * acc + (of_char c - 48)) cs"

text \<open>
  The text \<open>int\<close> accepts in base ten, after stripping: an optional sign, then groups of
  decimal digits separated by single underscores. This is the grammar of Python 3.6 and
  later. What it rejects, every version of \<open>int\<close> rejects; older versions also reject
  the underscores, and an interpreter with a limit on the number of digits also rejects
  the longer digit strings.
\<close>

definition int_literal :: "string \<Rightarrow> bool" where
  "int_literal t =
     (let ds = (if t \<noteq> [] \<and> (hd t = CHR ''-'' \<or> hd t = CHR ''+'') then tl t else t)
      in list_all (\<lambda>g. g \<noteq> [] \<and> list_all is_digit g) (split_char CHR ''_'' ds))"

text \<open>
  \<open>int(x)\<close> on what \<open>headers["Content-Length"]\<close> can be: \<open>None\<close> (the key is missing)
  raises TypeError; a string that is not such a literal raises ValueError.
\<close>

definition int_of_str :: "string \<Rightarrow> error + int" where
  "int_of_str s =
     (let t = strip s;
          neg = (t \<noteq> [] \<and> hd t = CHR ''-'');
          n = int (digits_value 0 (filter is_digit t))
      in if int_literal t then Inr (if neg then - n else n) else Inl ValueError)"

definition py_int :: "string option \<Rightarrow> error + int" where
  "py_int x = (case x of None \<Rightarrow> Inl TypeError | Some s \<Rightarrow> int_of_str s)"

section \<open>The byte stream\<close>

text \<open>
  A socket is the list of chunks in which the peer's data arrives; once the list is used up
  the peer has closed the stream and every further read is empty. \<open>socket.recv(n)\<close> hands
  out at most \<open>n\<close> characters of the first chunk. Reads return text, as the source compares
  them with \<open>""\<close>.
\<close>

type_synonym socket = "string list"

definition sock_recv :: "nat \<Rightarrow> socket \<Rightarrow> string \<times> socket" where
  "sock_recv n sock =
     (case sock of
        [] \<Rightarrow> ([], [])
      | c # cs \<Rightarrow> if length c \<le> n then (c, cs) else (take n c, drop n c # cs))"

section \<open>Frame reading\<close>

text \<open>
  The header loop of \<open>recv_raw\<close>: one character per read. The result \<open>None\<close> is the early
  \<open>return None\<close> on an empty read; \<open>Some headers\<close> is the \<open>break\<close> on the blank line.
\<close>

function read_headers :: "string list \<Rightarrow> string \<Rightarrow> socket \<Rightarrow> string list option \<times> socket" where
  "read_headers headers cread_line sock =
     (let (c, sock') = sock_recv 1 sock in
        if c = [] then (None, sock')
        else if endswith (cread_line @ c) CRLF then
          (if cread_line @ c = CRLF then (Some headers, sock')
           else read_headers (headers @ [cread_line @ c]) [] sock')
        else read_headers headers (cread_line @ c) sock')"
  by pat_completeness auto

termination read_headers
  by (relation "measure (\<lambda>(headers, cread_line, sock). sum_list (map length sock))")
     (auto simp: sock_recv_def split: list.splits if_splits)

declare read_headers.simps [simp del]

text \<open>\<open>parse_headers\<close>: the unpacking \<open>type, value = hl.split(":")\<close> needs exactly two pieces.\<close>

fun parse_headers_loop :: "(string \<times> string) list \<Rightarrow> string list \<Rightarrow> error + (string \<times> string) list" where
  "parse_headers_loop h [] = Inr h"
| "parse_headers_loop h (hl # hls) =
     (case split_char CHR '':'' hl of
        [type, val] \<Rightarrow> parse_headers_loop (dict_set h (strip type) (strip val)) hls
      | _ \<Rightarrow> Inl ValueError)"

definition parse_headers :: "string list \<Rightarrow> error + (string \<times> string) list" where
  "parse_headers headers = parse_headers_loop [] headers"

text \<open>
  The body loop of \<open>recv_raw\<close>. It tests the accumulated \<open>data\<close>, not the chunk just read.
  The loop need not end, so the model is a partial function: \<open>None\<close> is "never returns".
  A result \<open>(None, _)\<close> is the \<open>return None\<close> inside the loop.
\<close>

partial_function (option) body_loop :: "int \<Rightarrow> string \<Rightarrow> socket \<Rightarrow> (string option \<times> socket) option" where
  "body_loop content_size data sock =
     (if int (length data) < content_size then
        (case sock_recv (nat (content_size - int (length data))) sock of
           (c, sock') \<Rightarrow>
             if data @ c = [] then Some (None, sock')
             else body_loop content_size (data @ c) sock')
      else Some (Some data, sock))"

text \<open>
  \<open>recv_raw\<close> up to the decoding step: the body text, or \<open>None\<close> for end of stream, with
  the rest of the stream.
\<close>

definition recv_frame :: "socket \<Rightarrow> (error + string option \<times> socket) option" where
  "recv_frame sock =
     (case read_headers [] [] sock of
        (None, sock1) \<Rightarrow> Some (Inr (None, sock1))
      | (Some headers, sock1) \<Rightarrow>
          (case parse_headers headers of
             Inl e \<Rightarrow> Some (Inl e)
           | Inr h \<Rightarrow>
               (case py_int (map_of h ''Content-Length'') of
                  Inl e \<Rightarrow> Some (Inl e)
                | Inr content_size \<Rightarrow>
                    (case body_loop content_size [] sock1 of
                       None \<Rightarrow> None
                     | Some (r, sock2) \<Rightarrow> Some (Inr (r, sock2))))))"

text \<open>
  \<open>recv_raw\<close>: the JSON decoder \<open>json.loads\<close> is a collaborator, taken as the parameter
  \<open>loads\<close>. The Python result \<open>None\<close> is \<open>JNull\<close>.
\<close>

definition recv_raw :: "(string \<Rightarrow> error + json) \<Rightarrow> socket \<Rightarrow> (error + json \<times> socket) option" where
  "recv_raw loads sock =
     (case recv_frame sock of
        None \<Rightarrow> None
      | Some (Inl e) \<Rightarrow> Some (Inl e)
      | Some (Inr (None, sock')) \<Rightarrow> Some (Inr (JNull, sock'))
      | Some (Inr (Some data, sock')) \<Rightarrow>
          (case loads data of
             Inl e \<Rightarrow> Some (Inl e)
           | Inr body \<Rightarrow> Some (Inr (body, sock'))))"

text \<open>
  protocol/base.py repeats \<open>recv_raw\<close> and \<open>parse_headers\<close> word for word, but the
  module never imports \<open>NoneDict\<close>: the first statement of its \<open>parse_headers\<close>,
  \<open>h = NoneDict({})\<close>, raises NameError, so its \<open>recv_raw\<close> ends there whenever the
  header block is complete.
\<close>

definition base_parse_headers :: "string list \<Rightarrow> error + (string \<times> string) list" where
  "base_parse_headers headers = Inl NameError"

definition base_recv_raw :: "(string \<Rightarrow> error + json) \<Rightarrow> socket \<Rightarrow> (error + json \<times> socket) option" where
  "base_recv_raw loads sock =
     (case read_headers [] [] sock of
        (None, sock1) \<Rightarrow> Some (Inr (JNull, sock1))
      | (Some headers, sock1) \<Rightarrow>
          (case base_parse_headers headers of
             Inl e \<Rightarrow> Some (Inl e)
           | Inr h \<Rightarrow> recv_raw loads sock))"

section \<open>Messages\<close>

text \<open>
  The class hierarchy of protocol.py. A message is its class together with its attributes;
  an attribute that was left at its default \<open>None\<close> is \<open>JNull\<close>. Events share the attribute
  \<open>event\<close>, responses share \<open>rqs\<close>, \<open>command\<close>, \<open>success\<close> and \<open>message\<close>; the
  subclass contributes the rest. \<open>DAPEvent_base\<close> and \<open>DAPResponse_base\<close> stand for an
  instance of the base class itself.
\<close>

datatype event_class =
    DAPEvent_base
  | DAPInitializedEvent
  | DAPStoppedEvent json json json json json json
  | DAPContinueEvent json json
  | DAPExitedEvent json
  | DAPTerminatedEvent json
  | DAPThreadEvent json json
  | DAPOutputEvent json json json json json json json
  | DAPBreakpointEvent json json
  | DAPModuleEvent json json
  | DAPLoadedSourceEvent json json
  | DAPProcessEvent json json json json
  | DAPCapabilitiesEvent json

datatype response_class =
    DAPResponse_base
  | DAPErrorResponse json
  | DAPRunInTerminalResponse json json
  | DAPSetBreakpointsResponse json
  | DAPSetFunctionBreakpointsResponse json
  | DAPContinueResponse json
  | DAPInitializeResponse json
  | DAPStackTraceResponse json
  | DAPScopesResponse json
  | DAPVariablesResponse json
  | DAPSetVariableResponse json json json json json
  | DAPSourceResponse json json
  | DAPThreadsResponse json
  | DAPEvaluateResponse json json json json json json

datatype message =
    DAPMessage
  | DAPRequest json dict
  | DAPRunInTerminalRequest json dict
  | DAPEvent json event_class
  | DAPResponse json json json json response_class

text \<open>An object: the message and the attribute \<open>seq\<close>, which exists once \<open>set_seq\<close> ran.\<close>

record dap_object =
  self :: message
  seq :: "json option"

definition set_seq :: "dap_object \<Rightarrow> json \<Rightarrow> dap_object" where
  "set_seq obj s = obj\<lparr>seq := Some s\<rparr>"

subsection \<open>Constructors\<close>

text \<open>\<open>DAPMessage.remove_nones\<close>: a fresh dictionary of the entries that are not \<open>None\<close>.\<close>

definition remove_nones :: "dict \<Rightarrow> dict" where
  "remove_nones dict =
     foldl (\<lambda>d key. case map_of dict key of
                        None \<Rightarrow> d
                      | Some v \<Rightarrow> if v \<noteq> JNull then dict_set d key v else d)
           [] (map fst dict)"

text \<open>
  \<open>DAPRequest.__init__(self, command, **kwargs)\<close>, called with the positional arguments
  \<open>args\<close> (after \<open>self\<close>) and the keyword arguments \<open>kw\<close>. The parameters are
  \<open>self\<close> and \<open>command\<close>: a keyword \<open>self\<close> binds \<open>self\<close> a second time, only
  \<open>command\<close> can be bound positionally, and a second positional argument, a missing
  \<open>command\<close> or a \<open>command\<close> given twice is a TypeError of the call as well.
\<close>

definition DAPRequest_init :: "json list \<Rightarrow> dict \<Rightarrow> error + message" where
  "DAPRequest_init args kw =
     (case map_of kw ''self'' of
        Some s \<Rightarrow> Inl TypeError
      | None \<Rightarrow>
          (case args of
             [] \<Rightarrow> (case map_of kw ''command'' of
                      None \<Rightarrow> Inl TypeError
                    | Some command \<Rightarrow>
                        Inr (DAPRequest command
                               (remove_nones (filter (\<lambda>(k, v). k \<noteq> ''command'') kw))))
           | [command] \<Rightarrow>
               (case map_of kw ''command'' of
                  None \<Rightarrow> Inr (DAPRequest command (remove_nones kw))
                | Some c \<Rightarrow> Inl TypeError)
           | _ \<Rightarrow> Inl TypeError))"

text \<open>
  \<open>DAPRunInTerminalRequest.__init__\<close> passes six positional arguments on.
\<close>

definition DAPRunInTerminalRequest_init :: "json \<Rightarrow> json \<Rightarrow> json \<Rightarrow> json \<Rightarrow> json \<Rightarrow> error + message" where
  "DAPRunInTerminalRequest_init cwd args kind title env =
     (case DAPRequest_init [JStr ''runInTerminal'', kind, title, cwd, args, env] [] of
        Inl e \<Rightarrow> Inl e
      | Inr (DAPRequest command kwargs) \<Rightarrow> Inr (DAPRunInTerminalRequest command kwargs)
      | Inr m \<Rightarrow> Inr m)"

definition DAPEvent_init :: "json \<Rightarrow> message" where
  "DAPEvent_init event = DAPEvent event DAPEvent_base"

definition DAPResponse_init :: "json \<Rightarrow> json \<Rightarrow> json \<Rightarrow> json \<Rightarrow> message" where
  "DAPResponse_init rqs command success msg = DAPResponse rqs command success msg DAPResponse_base"

definition DAPErrorResponse_init :: "json \<Rightarrow> json \<Rightarrow> json \<Rightarrow> json \<Rightarrow> message" where
  "DAPErrorResponse_init rqs command msg detailed_message =
     DAPResponse rqs command (JBool False) msg (DAPErrorResponse detailed_message)"

definition DAPInitializedEvent_init :: message where
  "DAPInitializedEvent_init = DAPEvent (JStr ''initialized'') DAPInitializedEvent"


definition DAPContinueEvent_init :: "json \<Rightarrow> json \<Rightarrow> message" where
  "DAPContinueEvent_init thread_id all_threads_continue =
     DAPEvent (JStr ''continued'') (DAPContinueEvent thread_id all_threads_continue)"

definition DAPExitedEvent_init :: "json \<Rightarrow> message" where
  "DAPExitedEvent_init ec = DAPEvent (JStr ''exited'') (DAPExitedEvent ec)"

definition DAPTerminatedEvent_init :: "json \<Rightarrow> message" where
  "DAPTerminatedEvent_init restart = DAPEvent (JStr ''terminated'') (DAPTerminatedEvent restart)"

definition DAPThreadEvent_init :: "json \<Rightarrow> json \<Rightarrow> message" where
  "DAPThreadEvent_init reason thread_id = DAPEvent (JStr ''thread'') (DAPThreadEvent reason thread_id)"

definition DAPOutputEvent_init :: "json \<Rightarrow> json \<Rightarrow> json \<Rightarrow> json \<Rightarrow> json \<Rightarrow> json \<Rightarrow> json \<Rightarrow> message" where
  "DAPOutputEvent_init output category variables_reference source line column data =
     DAPEvent (JStr ''output'')
       (DAPOutputEvent output category variables_reference source line column data)"

definition DAPBreakpointEvent_init :: "json \<Rightarrow> json \<Rightarrow> message" where
  "DAPBreakpointEvent_init reason breakpoint =
     DAPEvent (JStr ''breakpoint'') (DAPBreakpointEvent reason breakpoint)"

definition DAPModuleEvent_init :: "json \<Rightarrow> json \<Rightarrow> message" where
  "DAPModuleEvent_init reason module = DAPEvent (JStr ''module'') (DAPModuleEvent reason module)"

definition DAPLoadedSourceEvent_init :: "json \<Rightarrow> json \<Rightarrow> message" where
  "DAPLoadedSourceEvent_init reason source =
     DAPEvent (JStr ''loadedSource'') (DAPLoadedSourceEvent reason source)"

definition DAPProcessEvent_init :: "json \<Rightarrow> json \<Rightarrow> json \<Rightarrow> json \<Rightarrow> message" where
  "DAPProcessEvent_init name process_id is_local start_method =
     DAPEvent (JStr ''process'') (DAPProcessEvent name process_id is_local start_method)"

definition DAPCapabilitiesEvent_init :: "json \<Rightarrow> message" where
  "DAPCapabilitiesEvent_init capabilities =
     DAPEvent (JStr ''capabilities'') (DAPCapabilitiesEvent capabilities)"

text \<open>The response subclasses call \<open>DAPResponse.__init__(self, rqs, "<command>")\<close>.\<close>

definition DAPRunInTerminalResponse_init :: "json \<Rightarrow> json \<Rightarrow> json \<Rightarrow> message" where
  "DAPRunInTerminalResponse_init rqs process_id shell_process_id =
     DAPResponse rqs (JStr ''runInTerminal'') (JBool True) JNull
       (DAPRunInTerminalResponse process_id shell_process_id)"

definition DAPSetBreakpointsResponse_init :: "json \<Rightarrow> json \<Rightarrow> message" where
  "DAPSetBreakpointsResponse_init rqs breakpoints =
     DAPResponse rqs (JStr ''setBreakpoints'') (JBool True) JNull
       (DAPSetBreakpointsResponse breakpoints)"

definition DAPSetFunctionBreakpointsResponse_init :: "json \<Rightarrow> json \<Rightarrow> message" where
  "DAPSetFunctionBreakpointsResponse_init rqs breakpoints =
     DAPResponse rqs (JStr ''setFunctionBreakpoints'') (JBool True) JNull
       (DAPSetFunctionBreakpointsResponse breakpoints)"

definition DAPContinueResponse_init :: "json \<Rightarrow> json \<Rightarrow> message" where
  "DAPContinueResponse_init rqs all_threads_continue =
     DAPResponse rqs (JStr ''continue'') (JBool True) JNull
       (DAPContinueResponse all_threads_continue)"

definition DAPInitializeResponse_init :: "json \<Rightarrow> json \<Rightarrow> message" where
  "DAPInitializeResponse_init rqs capabilities =
     DAPResponse rqs (JStr ''initialize'') (JBool True) JNull
       (DAPInitializeResponse capabilities)"

definition DAPStackTraceResponse_init :: "json \<Rightarrow> json \<Rightarrow> message" where
  "DAPStackTraceResponse_init rqs stack_frames =
     DAPResponse rqs (JStr ''stackTrace'') (JBool True) JNull
       (DAPStackTraceResponse stack_frames)"

definition DAPScopesResponse_init :: "json \<Rightarrow> json \<Rightarrow> message" where
  "DAPScopesResponse_init rqs scopes =
     DAPResponse rqs (JStr ''scopes'') (JBool True) JNull (DAPScopesResponse scopes)"

definition DAPVariablesResponse_init :: "json \<Rightarrow> json \<Rightarrow> message" where
  "DAPVariablesResponse_init rqs variables =
     DAPResponse rqs (JStr ''variables'') (JBool True) JNull (DAPVariablesResponse variables)"

definition DAPSetVariableResponse_init :: "json \<Rightarrow> json \<Rightarrow> json \<Rightarrow> json \<Rightarrow> json \<Rightarrow> json \<Rightarrow> message" where
  "DAPSetVariableResponse_init rqs val type variables_reference named_variables indexed_variables =
     DAPResponse rqs (JStr ''setVariable'') (JBool True) JNull
       (DAPSetVariableResponse val type variables_reference named_variables indexed_variables)"

definition DAPSourceResponse_init :: "json \<Rightarrow> json \<Rightarrow> json \<Rightarrow> message" where
  "DAPSourceResponse_init rqs source mime_type =
     DAPResponse rqs (JStr ''source'') (JBool True) JNull (DAPSourceResponse source mime_type)"

definition DAPThreadsResponse_init :: "json \<Rightarrow> json \<Rightarrow> message" where
  "DAPThreadsResponse_init rqs threads =
     DAPResponse rqs (JStr ''threads'') (JBool True) JNull (DAPThreadsResponse threads)"

definition DAPEvaluateResponse_init :: "json \<Rightarrow> json \<Rightarrow> json \<Rightarrow> json \<Rightarrow> json \<Rightarrow> json \<Rightarrow> json \<Rightarrow> message" where
  "DAPEvaluateResponse_init rqs result type presentation_hint variables_reference named_variables
       indexed_variables =
     DAPResponse rqs (JStr ''evaluate'') (JBool True) JNull
       (DAPEvaluateResponse result type presentation_hint variables_reference named_variables
          indexed_variables)"

section \<open>Serialization\<close>

text \<open>The guarded store \<open>if v is not None: d[k] = v\<close>.\<close>

definition set_unless_none :: "dict \<Rightarrow> string \<Rightarrow> json \<Rightarrow> dict" where
  "set_unless_none d k v = (if v \<noteq> JNull then dict_set d k v else d)"

text \<open>\<open>len(x)\<close>: defined on lists, dictionaries and strings, a TypeError elsewhere.\<close>

fun py_len :: "json \<Rightarrow> error + int" where
  "py_len (JList xs) = Inr (int (length xs))"
| "py_len (JObj d) = Inr (int (length d))"
| "py_len (JStr s) = Inr (int (length s))"
| "py_len JNull = Inl TypeError"
| "py_len (JBool b) = Inl TypeError"
| "py_len (JInt i) = Inl TypeError"

text \<open>
  \<open>serialize_event_context\<close>, one equation per class. The source stores the empty \<open>body\<close>
  in \<open>message\<close> first and fills it afterwards through the shared reference; the model
  fills \<open>body\<close> and then stores it, which leaves the same dictionaries.
\<close>

fun serialize_event_context :: "event_class \<Rightarrow> dict \<Rightarrow> error + dict" where
  "serialize_event_context DAPEvent_base message = Inl NotImplementedError"
| "serialize_event_context DAPInitializedEvent message = Inr message"
| "serialize_event_context
     (DAPStoppedEvent reason description thread_id preserve_focus_hint text all_threads_stopped)
     message =
     (let body = [];
          body = dict_set body ''reason'' reason;
          body = set_unless_none body ''description'' description;
          body = set_unless_none body ''threadId'' thread_id;
          body = set_unless_none body ''preserveFocusHint'' preserve_focus_hint;
          body = set_unless_none body ''text'' text;
          body = set_unless_none body ''allThreadsStopped'' all_threads_stopped
      in Inr (dict_set message ''body'' (JObj body)))"
| "serialize_event_context (DAPContinueEvent thread_id all_threads_continue) message =
     (let body = [];
          body = dict_set body ''threadId'' thread_id;
          body = set_unless_none body ''allThreadsContinued'' all_threads_continue
      in Inr (dict_set message ''body'' (JObj body)))"
| "serialize_event_context (DAPExitedEvent ec) message =
     (let body = [];
          body = dict_set body ''exitCode'' ec
      in Inr (dict_set message ''body'' (JObj body)))"
| "serialize_event_context (DAPTerminatedEvent restart) message =
     (if restart \<noteq> JNull then
        (let body = [];
             body = dict_set body ''restart'' restart
         in Inr (dict_set message ''body'' (JObj body)))
      else Inr message)"
| "serialize_event_context (DAPThreadEvent reason thread_id) message =
     (let body = [];
          body = dict_set body ''reason'' reason;
          body = dict_set body ''threadId'' thread_id
      in Inr (dict_set message ''body'' (JObj body)))"
| "serialize_event_context
     (DAPOutputEvent output category variables_reference source line column data) message =
     (let body = [];
          body = set_unless_none body ''category'' category;
          body = dict_set body ''output'' output;
          body = set_unless_none body ''variablesReference'' variables_reference;
          body = set_unless_none body ''source'' source;
          body = set_unless_none body ''line'' line;
          body = set_unless_none body ''column'' column;
          body = set_unless_none body ''data'' data
      in Inr (dict_set message ''body'' (JObj body)))"
| "serialize_event_context (DAPBreakpointEvent reason breakpoint) message =
     (let body = [];
          body = dict_set body ''reason'' reason;
          body = dict_set body ''breakpoint'' breakpoint
      in Inr (dict_set message ''body'' (JObj body)))"
| "serialize_event_context (DAPModuleEvent reason module) message =
     (let body = [];
          body = dict_set body ''reason'' reason;
          body = dict_set body ''module'' module
      in Inr (dict_set message ''body'' (JObj body)))"
| "serialize_event_context (DAPLoadedSourceEvent reason source) message =
     (let body = [];
          body = dict_set body ''reason'' reason;
          body = dict_set body ''source'' source
      in Inr (dict_set message ''body'' (JObj body)))"
| "serialize_event_context (DAPProcessEvent name process_id is_local start_method) message =
     (let body = [];
          body = dict_set body ''name'' name;
          body = set_unless_none body ''systemProcessId'' process_id;
          body = set_unless_none body ''isLocalProcess'' is_local;
          body = set_unless_none body ''startMethod'' start_method
      in Inr (dict_set message ''body'' (JObj body)))"
| "serialize_event_context (DAPCapabilitiesEvent capabilities) message =
     (let body = [];
          body = dict_set body ''capabilities'' capabilities
      in Inr (dict_set message ''body'' (JObj body)))"

text \<open>
  \<open>serialize_response_context\<close>. \<open>DAPEvaluateResponse\<close> reads \<open>self.value\<close>, an
  attribute its constructor never sets (it sets \<open>self.result\<close>): AttributeError.
  \<open>DAPInitializeResponse\<close> stores the capabilities as the body.
\<close>

fun serialize_response_context :: "response_class \<Rightarrow> dict \<Rightarrow> error + dict" where
  "serialize_response_context DAPResponse_base message = Inr message"
| "serialize_response_context (DAPErrorResponse dm) message =
     (let body = [];
          body = set_unless_none body ''error'' dm
      in Inr (dict_set message ''body'' (JObj body)))"
| "serialize_response_context (DAPRunInTerminalResponse process_id shell_process_id) message =
     (let body = [];
          body = set_unless_none body ''processId'' process_id;
          body = set_unless_none body ''shellProcessId'' shell_process_id
      in Inr (dict_set message ''body'' (JObj body)))"
| "serialize_response_context (DAPSetBreakpointsResponse breakpoints) message =
     (let body = [];
          body = dict_set body ''breakpoints'' breakpoints
      in Inr (dict_set message ''body'' (JObj body)))"
| "serialize_response_context (DAPSetFunctionBreakpointsResponse breakpoints) message =
     (let body = [];
          body = dict_set body ''breakpoints'' breakpoints
      in Inr (dict_set message ''body'' (JObj body)))"
| "serialize_response_context (DAPContinueResponse all_threads_continue) message =
     (let body = [];
          body = set_unless_none body ''allThreadsContinued'' all_threads_continue
      in Inr (dict_set message ''body'' (JObj body)))"
| "serialize_response_context (DAPInitializeResponse capabilities) message =
     Inr (dict_set message ''body'' capabilities)"
| "serialize_response_context (DAPStackTraceResponse stack_frames) message =
     (let body = [];
          body = dict_set body ''stackFrames'' stack_frames
      in case py_len stack_frames of
           Inl e \<Rightarrow> Inl e
         | Inr n \<Rightarrow>
             (let body = dict_set body ''totalFrames'' (JInt n)
              in Inr (dict_set message ''body'' (JObj body))))"
| "serialize_response_context (DAPScopesResponse scopes) message =
     (let body = [];
          body = dict_set body ''scopes'' scopes
      in Inr (dict_set message ''body'' (JObj body)))"
| "serialize_response_context (DAPVariablesResponse variables) message =
     (let body = [];
          body = dict_set body ''variables'' variables
      in Inr (dict_set message ''body'' (JObj body)))"
| "serialize_response_context
     (DAPSetVariableResponse val type variables_reference named_variables indexed_variables)
     message =
     (let body = [];
          body = dict_set body ''value'' val;
          body = set_unless_none body ''type'' type;
          body = set_unless_none body ''variablesReference'' variables_reference;
          body = set_unless_none body ''namedVariables'' named_variables;
          body = set_unless_none body ''indexedVariables'' indexed_variables
      in Inr (dict_set message ''body'' (JObj body)))"
| "serialize_response_context (DAPSourceResponse source mime_type) message =
     (let body = [];
          body = dict_set body ''source'' source;
          body = set_unless_none body ''mimeType'' mime_type
      in Inr (dict_set message ''body'' (JObj body)))"
| "serialize_response_context (DAPThreadsResponse threads) message =
     (let body = [];
          body = dict_set body ''threads'' threads
      in Inr (dict_set message ''body'' (JObj body)))"
| "serialize_response_context
     (DAPEvaluateResponse result type presentation_hint variables_reference named_variables
        indexed_variables)
     message = Inl AttributeError"

text \<open>\<open>get_type\<close>: abstract in \<open>DAPMessage\<close>; \<open>DAPRequest.get_type\<close> returns "type".\<close>

fun get_type :: "message \<Rightarrow> error + string" where
  "get_type DAPMessage = Inl NotImplementedError"
| "get_type (DAPRequest command kwargs) = Inr ''type''"
| "get_type (DAPRunInTerminalRequest command kwargs) = Inr ''type''"
| "get_type (DAPEvent event cls) = Inr ''event''"
| "get_type (DAPResponse rqs command success msg cls) = Inr ''response''"

text \<open>
  \<open>serialize_context\<close>. In \<open>DAPResponse\<close> a set \<open>message\<close> is stored under the key
  "success".
\<close>

fun serialize_context :: "message \<Rightarrow> dict \<Rightarrow> error + dict" where
  "serialize_context DAPMessage message = Inr message"
| "serialize_context (DAPRequest command kwargs) message =
     (let message = dict_set message ''command'' command;
          message = dict_set message ''args'' (JObj kwargs)
      in Inr message)"
| "serialize_context (DAPRunInTerminalRequest command kwargs) message =
     (let message = dict_set message ''command'' command;
          message = dict_set message ''args'' (JObj kwargs)
      in Inr message)"
| "serialize_context (DAPEvent event cls) message =
     (let message = dict_set message ''event'' event
      in serialize_event_context cls message)"
| "serialize_context (DAPResponse rqs command success msg cls) message =
     (let message = dict_set message ''request_seq'' rqs;
          message = dict_set message ''command'' command;
          message = dict_set message ''success'' success;
          message = (if msg \<noteq> JNull then dict_set message ''success'' msg else message)
      in serialize_response_context cls message)"

text \<open>
  \<open>serialize(self, seq)\<close>: the dictionary handed to \<open>json.dumps\<close>, which turns a
  dictionary of JSON values into text without failing.
\<close>

definition serialize :: "json \<Rightarrow> message \<Rightarrow> error + dict" where
  "serialize sq m =
     (let message = [];
          message = dict_set message ''seq'' sq
      in case get_type m of
           Inl e \<Rightarrow> Inl e
         | Inr t \<Rightarrow>
             (let message = dict_set message ''type'' (JStr t)
              in serialize_context m message))"

section \<open>Decoding requests\<close>

text \<open>
  \<open>body[key]\<close> on the decoded body: an object was built by the hook \<open>NoneDict\<close>; a list,
  a string, a number or a boolean cannot be indexed by a string.
\<close>

fun py_getitem :: "json \<Rightarrow> string \<Rightarrow> error + json" where
  "py_getitem (JObj d) key = Inr (NoneDict_getitem d key)"
| "py_getitem JNull key = Inl TypeError"
| "py_getitem (JBool b) key = Inl TypeError"
| "py_getitem (JInt i) key = Inl TypeError"
| "py_getitem (JStr s) key = Inl TypeError"
| "py_getitem (JList xs) key = Inl TypeError"

text \<open>
  \<open>DAPMessage.recv\<close> after \<open>recv_raw\<close> has returned \<open>body\<close>. The call
  \<open>DAPRequest(command=body["command"], **kwargs)\<close> needs \<open>kwargs\<close> to be a mapping that
  does not bind \<open>command\<close> again; a key \<open>self\<close> in it is refused when the
  constructor binds its parameters. No other request class is looked up.
\<close>

definition recv_body :: "json \<Rightarrow> error + dap_object option" where
  "recv_body body =
     (if body \<noteq> JNull then
        (case py_getitem body ''arguments'' of
           Inl e \<Rightarrow> Inl e
         | Inr kwargs \<Rightarrow>
             (let kwargs = (if kwargs = JNull then JObj [] else kwargs)
              in case py_getitem body ''command'' of
                   Inl e \<Rightarrow> Inl e
                 | Inr command \<Rightarrow>
                     (case kwargs of
                        JObj kw \<Rightarrow>
                          (case map_of kw ''command'' of
                             Some c \<Rightarrow> Inl TypeError
                           | None \<Rightarrow>
                               (case DAPRequest_init [] ((''command'', command) # kw) of
                                  Inl e \<Rightarrow> Inl e
                                | Inr rq \<Rightarrow>
                                    (case py_getitem body ''seq'' of
                                       Inl e \<Rightarrow> Inl e
                                     | Inr s \<Rightarrow>
                                         Inr (Some (set_seq \<lparr>self = rq, seq = None\<rparr> s)))))
                      | _ \<Rightarrow> Inl TypeError)))
      else Inr None)"

definition recv :: "(string \<Rightarrow> error + json) \<Rightarrow> socket \<Rightarrow> (error + dap_object option \<times> socket) option" where
  "recv loads sock =
     (case recv_raw loads sock of
        None \<Rightarrow> None
      | Some (Inl e) \<Rightarrow> Some (Inl e)
      | Some (Inr (body, sock')) \<Rightarrow>
          (case recv_body body of
             Inl e \<Rightarrow> Some (Inl e)
           | Inr rq \<Rightarrow> Some (Inr (rq, sock'))))"

section \<open>Observations on messages\<close>

text \<open>The attribute \<open>kwargs\<close> of a request object.\<close>

fun kwargs_of :: "message \<Rightarrow> dict" where
  "kwargs_of (DAPRequest command kwargs) = kwargs"
| "kwargs_of (DAPRunInTerminalRequest command kwargs) = kwargs"
| "kwargs_of DAPMessage = []"
| "kwargs_of (DAPEvent event cls) = []"
| "kwargs_of (DAPResponse rqs command success msg cls) = []"

text \<open>A dictionary none of whose entries is \<open>None\<close>.\<close>

definition null_free :: "dict \<Rightarrow> bool" where
  "null_free d = list_all (\<lambda>(k, v). v \<noteq> JNull) d"










section \<open>Frame reading: a stream that closes inside the body\<close>

text \<open>
  Once the peer has closed the stream every read is empty. If the body loop then holds a
  non-empty, incomplete \<open>data\<close>, the test \<open>data == ""\<close> stays false and the loop
  condition stays true: no result is ever produced.
\<close>

lemma body_loop_closed_no_result:
  assumes "body_loop content_size data sock = Some y"
  shows "sock = [] \<longrightarrow> data \<noteq> [] \<longrightarrow> \<not> int (length data) < content_size"
proof (rule body_loop.raw_induct
    [where P = "\<lambda>cs d s r. s = ([]::socket) \<longrightarrow> d \<noteq> ([]::string) \<longrightarrow> \<not> int (length d) < cs",
     OF _ assms])
  fix f :: "int \<Rightarrow> string \<Rightarrow> socket \<Rightarrow> (string option \<times> socket) option" and cs d s r
  assume ih: "\<And>cs d s r. f cs d s = Some r \<Longrightarrow> s = [] \<longrightarrow> d \<noteq> [] \<longrightarrow> \<not> int (length d) < cs"
    and step: "(if int (length d) < cs then
        (case sock_recv (nat (cs - int (length d))) s of
           (c, sock') \<Rightarrow>
             if d @ c = [] then Some (None, sock')
             else f cs (d @ c) sock')
      else Some (Some d, s)) = Some r"
  show "s = [] \<longrightarrow> d \<noteq> [] \<longrightarrow> \<not> int (length d) < cs"
  proof (intro impI notI)
    assume a: "s = []" "d \<noteq> []" "int (length d) < cs"
    with step have "f cs d [] = Some r" by (simp add: sock_recv_def)
    from ih [OF this] a show False by simp
  qed
qed

lemma body_loop_closed_diverges:
  "data \<noteq> [] \<Longrightarrow> int (length data) < content_size \<Longrightarrow> body_loop content_size data [] = None"
  using body_loop_closed_no_result [of content_size data "[]"]
  by (cases "body_loop content_size data []") auto

text \<open>
  When nothing has been accumulated the same closure is reported: the loop returns
  \<open>None\<close> at the first empty read.
\<close>

lemma body_loop_closed_empty:
  "0 < content_size \<Longrightarrow> body_loop content_size [] [] = Some (None, [])"
  by (subst body_loop.simps) (simp add: sock_recv_def)

text \<open>In protocol/base.py the same stream ends in the NameError.\<close>

lemma base_recv_raw_partial_body:
  "base_recv_raw loads [''Content-Length: 13'' @ CRLF @ CRLF, ''hello''] = Some (Inl NameError)"
proof -
  have rh: "read_headers [] [] [''Content-Length: 13'' @ CRLF @ CRLF, ''hello''] =
      (Some [''Content-Length: 13'' @ CRLF], [''hello''])"
    by (simp add: read_headers.simps sock_recv_def CRLF_def endswith_def)
  show ?thesis
    by (simp only: base_recv_raw_def rh base_parse_headers_def prod.case option.case sum.case)
qed

text \<open>
  Claim C1. The frame reader is to answer a zero-length read with the end-of-stream marker
  \<open>None\<close>, also when part of the body has been received. The code does not: the stream
  below announces 13 bytes, delivers 5 and closes, and \<open>recv_raw\<close> never returns (the
  partial function has no value there), whatever the decoder.
\<close>

theorem recv_raw_partial_body_diverges:
  "recv_raw loads [''Content-Length: 13'' @ CRLF @ CRLF, ''hello''] = None"
proof -
  have rh: "read_headers [] [] [''Content-Length: 13'' @ CRLF @ CRLF, ''hello''] =
      (Some [''Content-Length: 13'' @ CRLF], [''hello''])"
    by (simp add: read_headers.simps sock_recv_def CRLF_def endswith_def)
  have ph: "parse_headers [''Content-Length: 13'' @ CRLF] = Inr [(''Content-Length'', ''13'')]"
    by (simp add: parse_headers_def CRLF_def strip_def is_space_def)
  have pi: "py_int (map_of [(''Content-Length'', ''13'')] ''Content-Length'') = Inr 13"
    by (simp add: py_int_def int_of_str_def int_literal_def strip_def is_space_def is_digit_def
        Let_def)
  have "body_loop 13 [] [''hello''] = body_loop 13 ''hello'' []"
    by (subst body_loop.simps) (simp add: sock_recv_def)
  also have "\<dots> = None"
    by (rule body_loop_closed_diverges) simp_all
  finally have bl: "body_loop 13 [] [''hello''] = None" .
  have "recv_frame [''Content-Length: 13'' @ CRLF @ CRLF, ''hello''] = None"
    by (simp only: recv_frame_def rh ph pi bl prod.case option.case sum.case)
  then show ?thesis
    by (simp only: recv_raw_def option.case)
qed

section \<open>Serialization of responses and requests\<close>

text \<open>
  For every response whose \<open>message\<close> is set and whose class serializes, the key
  "success" carries the message text and no key "message" exists.
\<close>

lemma response_message_replaces_success:
  "msg \<noteq> JNull \<Longrightarrow> serialize sq (DAPResponse rqs command success msg cls) = Inr out \<Longrightarrow>
   map_of out ''success'' = Some msg \<and> map_of out ''message'' = None"
  by (cases cls) (auto simp: serialize_def Let_def set_unless_none_def split: sum.splits if_splits)

text \<open>
  Claim C2. A response with a set \<open>message\<close> is to keep its boolean under "success" and
  carry the text under a key "message" of its own. The code stores the text under
  "success": the response below, built with \<open>success=True\<close> and \<open>message="busy"\<close>,
  serializes with "success" bound to "busy" and without a key "message".
\<close>

theorem response_message_overwrites_success:
  "serialize (JInt 3) (DAPResponse_init (JInt 2) (JStr ''next'') (JBool True) (JStr ''busy'')) =
     Inr [(''seq'', JInt 3), (''type'', JStr ''response''), (''request_seq'', JInt 2),
          (''command'', JStr ''next''), (''success'', JStr ''busy'')]"
  by (simp add: serialize_def DAPResponse_init_def)

text \<open>
  Claim C4. Serializing a validly constructed response or event is never to raise. Every
  \<open>DAPEvaluateResponse\<close> raises: its serializer reads the attribute \<open>value\<close>, which the
  constructor never sets, so the result is AttributeError for all constructor arguments.
\<close>

theorem evaluate_response_raises:
  "serialize sq (DAPEvaluateResponse_init rqs result type presentation_hint variables_reference
      named_variables indexed_variables) = Inl AttributeError"
  by (simp add: serialize_def DAPEvaluateResponse_init_def)

text \<open>
  Claim C5. The serialized map is to carry "seq" and "type", the latter being "request"
  for a request. \<open>DAPRequest.get_type\<close> returns "type": every request serializes with
  "type" bound to the string "type".
\<close>

theorem request_type_is_type:
  "serialize sq (DAPRequest command kwargs) =
     Inr [(''seq'', sq), (''type'', JStr ''type''), (''command'', command),
          (''args'', JObj kwargs)]"
  by (simp add: serialize_def)

text \<open>Events and responses that serialize do carry their own type word and \<open>seq\<close>.\<close>

lemma dict_set_lookup: "map_of (dict_set d k v) = (map_of d)(k \<mapsto> v)"
  by (induction d) (auto simp: fun_upd_twist)

lemma event_context_keeps:
  "serialize_event_context cls message = Inr out \<Longrightarrow> k \<noteq> ''body'' \<Longrightarrow>
   map_of out k = map_of message k"
  by (cases cls) (auto simp: Let_def dict_set_lookup split: if_splits)

lemma response_context_keeps:
  "serialize_response_context cls message = Inr out \<Longrightarrow> k \<noteq> ''body'' \<Longrightarrow>
   map_of out k = map_of message k"
  by (cases cls) (auto simp: Let_def dict_set_lookup split: if_splits sum.splits)

lemma event_type_and_seq:
  assumes "serialize sq (DAPEvent event cls) = Inr out"
  shows "map_of out ''seq'' = Some sq \<and> map_of out ''type'' = Some (JStr ''event'')"
proof -
  define m0 where "m0 = [(''seq'', sq), (''type'', JStr ''event''), (''event'', event)]"
  have s: "serialize_event_context cls m0 = Inr out"
    using assms by (simp add: serialize_def m0_def)
  have "map_of m0 ''seq'' = Some sq" "map_of m0 ''type'' = Some (JStr ''event'')"
    by (simp_all add: m0_def)
  with event_context_keeps [OF s, of "''seq''"] event_context_keeps [OF s, of "''type''"]
  show ?thesis by simp
qed

lemma response_type_and_seq:
  assumes "serialize sq (DAPResponse rqs command success msg cls) = Inr out"
  shows "map_of out ''seq'' = Some sq \<and> map_of out ''type'' = Some (JStr ''response'')"
proof -
  define m0 where "m0 = [(''seq'', sq), (''type'', JStr ''response''), (''request_seq'', rqs),
    (''command'', command), (''success'', if msg \<noteq> JNull then msg else success)]"
  have s: "serialize_response_context cls m0 = Inr out"
    using assms by (auto simp: serialize_def m0_def Let_def split: if_splits)
  have "map_of m0 ''seq'' = Some sq" "map_of m0 ''type'' = Some (JStr ''response'')"
    by (simp_all add: m0_def)
  with response_context_keeps [OF s, of "''seq''"] response_context_keeps [OF s, of "''type''"]
  show ?thesis by simp
qed

text \<open>
  Every other class serializes: an event of any subclass, and a response of any class
  but \<open>DAPEvaluateResponse\<close> (for a stack trace response, when \<open>len\<close> is defined on
  the stack frames).
\<close>

lemma event_serializes:
  "cls \<noteq> DAPEvent_base \<Longrightarrow> \<exists>out. serialize sq (DAPEvent event cls) = Inr out"
  by (cases cls) (simp_all add: serialize_def Let_def)

lemma response_serializes:
  assumes "\<forall>a b c d e f. cls \<noteq> DAPEvaluateResponse a b c d e f"
    and "\<forall>sf. cls = DAPStackTraceResponse sf \<longrightarrow> (\<exists>n. py_len sf = Inr n)"
  shows "\<exists>out. serialize sq (DAPResponse rqs command success msg cls) = Inr out"
  using assms by (cases cls) (auto simp: serialize_def Let_def)

section \<open>Header parsing\<close>

text \<open>
  \<open>split\<close> yields one piece more than the line has colons. A line with exactly one
  colon is stored under its stripped name with its stripped value, a later line replacing
  an earlier one of the same name; any other number of colons raises ValueError.
\<close>

lemma split_char_length:
  "length (split_char sep s) = Suc (length (filter (\<lambda>c. c = sep) s))"
  by (induction s) (auto split: list.splits)

lemma split_char_one:
  "sep \<notin> set a \<Longrightarrow> sep \<notin> set b \<Longrightarrow> split_char sep (a @ sep # b) = [a, b]"
proof (induction a)
  case Nil
  have "split_char sep b = [b]" using Nil(2) by (induction b) auto
  then show ?case by simp
next
  case (Cons x a)
  then show ?case by auto
qed

lemma parse_headers_loop_one_colon:
  "CHR '':'' \<notin> set a \<Longrightarrow> CHR '':'' \<notin> set b \<Longrightarrow>
   parse_headers_loop h ((a @ CHR '':'' # b) # hls) =
     parse_headers_loop (dict_set h (strip a) (strip b)) hls"
  by (simp add: split_char_one)

lemma parse_headers_loop_other:
  assumes "length (filter (\<lambda>c. c = CHR '':'') hl) \<noteq> 1"
  shows "parse_headers_loop h (hl # hls) = Inl ValueError"
proof -
  have "length (split_char CHR '':'' hl) \<noteq> 2"
    using assms by (simp add: split_char_length)
  then show ?thesis
    by (cases "split_char CHR '':'' hl" rule: list.exhaust) (auto split: list.splits)
qed

lemma dict_set_last_wins:
  "map_of (dict_set (dict_set h k v1) k v2) k = Some v2"
  by (simp add: dict_set_lookup)

text \<open>
  Claim C8. A header line is to be split at its first colon, so that a value containing a
  colon is accepted. \<open>parse_headers\<close> splits at every colon and unpacks into exactly two
  names: the line \<open>X-Time: 10:30\<close> has three pieces and raises ValueError.
\<close>

theorem parse_headers_colon_in_value:
  "parse_headers [''X-Time: 10:30'' @ CRLF] = Inl ValueError"
  by (simp add: parse_headers_def CRLF_def)

section \<open>Constructing requests\<close>

text \<open>
  Claim C10. Constructing a \<open>DAPRunInTerminalRequest\<close> raises TypeError for every
  argument combination: its constructor hands five positional arguments after the command
  string to \<open>DAPRequest.__init__\<close>, which binds only the command positionally.
\<close>

theorem run_in_terminal_request_raises:
  "DAPRunInTerminalRequest_init cwd args kind title env = Inl TypeError"
  by (simp add: DAPRunInTerminalRequest_init_def DAPRequest_init_def)

text \<open>Facts about the dictionary store and about \<open>remove_nones\<close>.\<close>

lemma dict_set_member:
  "(k', v') \<in> set (dict_set d k v) \<Longrightarrow> (k', v') = (k, v) \<or> (k', v') \<in> set d"
  by (induction d) (auto split: if_splits)

lemma null_free_dict_set: "null_free d \<Longrightarrow> v \<noteq> JNull \<Longrightarrow> null_free (dict_set d k v)"
  by (induction d) (auto simp: null_free_def)

lemma dict_set_fresh: "k \<notin> fst ` set d \<Longrightarrow> dict_set d k v = d @ [(k, v)]"
  by (induction d) auto

lemma remove_nones_fold_null_free:
  "null_free acc \<Longrightarrow>
   null_free (foldl (\<lambda>d key. case map_of dict key of
                        None \<Rightarrow> d
                      | Some v \<Rightarrow> if v \<noteq> JNull then dict_set d key v else d) acc ks)"
  by (induction ks arbitrary: acc) (auto simp: null_free_dict_set split: option.splits)

lemma remove_nones_null_free: "null_free (remove_nones d)"
  unfolding remove_nones_def by (rule remove_nones_fold_null_free) (simp add: null_free_def)

text \<open>
  On a dictionary (pairwise distinct keys) \<open>remove_nones\<close> keeps exactly the entries
  that are not \<open>None\<close>, in their order.
\<close>

lemma remove_nones_fold_filter:
  "distinct (map fst xs) \<Longrightarrow> (\<forall>(k, v) \<in> set xs. map_of dict k = Some v) \<Longrightarrow>
   fst ` set acc \<inter> fst ` set xs = {} \<Longrightarrow>
   foldl (\<lambda>d key. case map_of dict key of
                        None \<Rightarrow> d
                      | Some v \<Rightarrow> if v \<noteq> JNull then dict_set d key v else d) acc (map fst xs)
     = acc @ filter (\<lambda>(k, v). v \<noteq> JNull) xs"
proof (induction xs arbitrary: acc)
  case Nil
  then show ?case by simp
next
  case (Cons x xs)
  obtain k v where x: "x = (k, v)" by (cases x)
  from Cons.prems x have lk: "map_of dict k = Some v" by simp
  from Cons.prems x have fresh: "k \<notin> fst ` set acc" by auto
  show ?case
  proof (cases "v = JNull")
    case True
    have "fst ` set acc \<inter> fst ` set xs = {}" using Cons.prems(3) by auto
    with Cons.IH [of acc] Cons.prems(1,2) show ?thesis
      by (simp add: x lk True)
  next
    case False
    have d: "fst ` set (acc @ [(k, v)]) \<inter> fst ` set xs = {}"
      using Cons.prems(1,3) x by (auto simp: image_iff) 
    from Cons.IH [OF _ _ d] Cons.prems(1,2) show ?thesis
      by (simp add: x lk False dict_set_fresh [OF fresh])
  qed
qed

lemma remove_nones_filter:
  assumes "distinct (map fst d)"
  shows "remove_nones d = filter (\<lambda>(k, v). v \<noteq> JNull) d"
proof -
  have "\<forall>(k, v) \<in> set d. map_of d k = Some v" using assms by auto
  with remove_nones_fold_filter [OF assms, of d "[]"] show ?thesis
    by (simp add: remove_nones_def)
qed


lemma DAPRequest_init_null_free:
  "DAPRequest_init args kw = Inr rq \<Longrightarrow> null_free (kwargs_of rq)"
  by (auto simp: DAPRequest_init_def remove_nones_null_free split: list.splits option.splits)

lemma remove_nones_skip_null:
  assumes "distinct (map fst (xs @ (k, JNull) # ys))"
  shows "remove_nones (xs @ (k, JNull) # ys) = remove_nones (xs @ ys)"
proof -
  from assms have "distinct (map fst (xs @ ys))" by auto
  then show ?thesis using assms by (simp add: remove_nones_filter)
qed

lemma recv_body_same_kwargs:
  assumes "map_of kw1 ''command'' = map_of kw2 ''command''"
    and "map_of kw1 ''self'' = map_of kw2 ''self''"
    and "remove_nones (filter (\<lambda>(k, v). k \<noteq> ''command'') kw1) =
         remove_nones (filter (\<lambda>(k, v). k \<noteq> ''command'') kw2)"
  shows "recv_body (JObj (dict_set b ''arguments'' (JObj kw1))) =
         recv_body (JObj (dict_set b ''arguments'' (JObj kw2)))"
  using assms
  by (simp add: recv_body_def NoneDict_getitem_def dict_set_lookup DAPRequest_init_def
      split: option.splits)

lemma map_of_skip_entry:
  "k \<noteq> key \<Longrightarrow> map_of (xs @ (k, v) # ys) key = map_of (xs @ ys) key"
  by (simp add: map_add_def split: option.splits)

lemma recv_body_skip_null:
  assumes d: "distinct (map fst (xs @ (k, JNull) # ys))"
    and k: "k \<noteq> ''command''" and k': "k \<noteq> ''self''"
  shows "recv_body (JObj (dict_set b ''arguments'' (JObj (xs @ (k, JNull) # ys)))) =
         recv_body (JObj (dict_set b ''arguments'' (JObj (xs @ ys))))"
proof (rule recv_body_same_kwargs)
  show "map_of (xs @ (k, JNull) # ys) ''command'' = map_of (xs @ ys) ''command''"
    using k by (rule map_of_skip_entry)
  show "map_of (xs @ (k, JNull) # ys) ''self'' = map_of (xs @ ys) ''self''"
    using k' by (rule map_of_skip_entry)
  have "distinct (map fst (filter (\<lambda>(k, v). k \<noteq> ''command'') (xs @ (k, JNull) # ys)))"
    using d by (rule distinct_map_filter)
  then show "remove_nones (filter (\<lambda>(k, v). k \<noteq> ''command'') (xs @ (k, JNull) # ys)) =
      remove_nones (filter (\<lambda>(k, v). k \<noteq> ''command'') (xs @ ys))"
    using k by (simp add: remove_nones_skip_null)
qed

text \<open>
  Claim C9, as stated, fails for the two names that are parameters of the constructor.
  An argument \<open>command\<close> or \<open>self\<close> that is an explicit null on the wire makes the
  call \<open>DAPRequest(command=..., **kwargs)\<close> a TypeError, whereas the same body without
  that argument decodes to a request: null and absent are told apart.
\<close>

theorem request_null_argument_counterexample:
  "recv_body (JObj [(''seq'', JInt 4), (''command'', JStr ''evaluate''),
                    (''arguments'', JObj [(''command'', JNull)])]) = Inl TypeError \<and>
   recv_body (JObj [(''seq'', JInt 4), (''command'', JStr ''evaluate''),
                    (''arguments'', JObj [(''self'', JNull)])]) = Inl TypeError \<and>
   recv_body (JObj [(''seq'', JInt 4), (''command'', JStr ''evaluate''),
                    (''arguments'', JObj [])]) =
     Inr (Some \<lparr>self = DAPRequest (JStr ''evaluate'') [], seq = Some (JInt 4)\<rparr>)"
  by (simp add: recv_body_def NoneDict_getitem_def DAPRequest_init_def remove_nones_def set_seq_def)

text \<open>
  Claim C9, amended. The \<open>kwargs\<close> stored by \<open>DAPRequest.__init__\<close> hold no \<open>None\<close>
  entry, for every way of calling the constructor that succeeds. An argument named
  neither \<open>command\<close> nor \<open>self\<close> that is an explicit JSON null on the wire decodes
  like an absent one: removing the entry \<open>(k, null)\<close> from the \<open>arguments\<close> object of
  a body leaves the result of decoding unchanged.
\<close>

theorem request_kwargs_without_none:
  "(DAPRequest_init args kw = Inr rq \<longrightarrow> null_free (kwargs_of rq)) \<and>
   (distinct (map fst (xs @ (k, JNull) # ys)) \<and> k \<noteq> ''command'' \<and> k \<noteq> ''self'' \<longrightarrow>
      recv_body (JObj (dict_set b ''arguments'' (JObj (xs @ (k, JNull) # ys)))) =
      recv_body (JObj (dict_set b ''arguments'' (JObj (xs @ ys)))))"
  using DAPRequest_init_null_free recv_body_skip_null by blast

theorem request_kwargs_without_none_witness:
  "DAPRequest_init [JStr ''evaluate''] [(''expression'', JStr ''x''), (''frameId'', JNull)] =
     Inr (DAPRequest (JStr ''evaluate'') [(''expression'', JStr ''x'')]) \<and>
   null_free (kwargs_of (DAPRequest (JStr ''evaluate'') [(''expression'', JStr ''x'')])) \<and>
   distinct (map fst ([(''expression'', JStr ''x'')] @ (''frameId'', JNull) # [])) \<and>
   ''frameId'' \<noteq> ''command'' \<and> ''frameId'' \<noteq> ''self'' \<and>
   recv_body (JObj (dict_set [(''seq'', JInt 4), (''command'', JStr ''evaluate'')] ''arguments''
       (JObj ([(''expression'', JStr ''x'')] @ (''frameId'', JNull) # [])))) =
   recv_body (JObj (dict_set [(''seq'', JInt 4), (''command'', JStr ''evaluate'')] ''arguments''
       (JObj ([(''expression'', JStr ''x'')] @ []))))"
proof -
  have c: "DAPRequest_init [JStr ''evaluate''] [(''expression'', JStr ''x''), (''frameId'', JNull)] =
     Inr (DAPRequest (JStr ''evaluate'') [(''expression'', JStr ''x'')])"
    by (simp add: DAPRequest_init_def remove_nones_def)
  have d: "distinct (map fst ([(''expression'', JStr ''x'')] @ (''frameId'', JNull) # []))"
    by simp
  have k: "''frameId'' \<noteq> ''command''" "''frameId'' \<noteq> ''self''" by simp_all
  from request_kwargs_without_none
    [of "[JStr ''evaluate'']" "[(''expression'', JStr ''x''), (''frameId'', JNull)]"
        "DAPRequest (JStr ''evaluate'') [(''expression'', JStr ''x'')]"
        "[(''expression'', JStr ''x'')]" "''frameId''" "[]"
        "[(''seq'', JInt 4), (''command'', JStr ''evaluate'')]"]
  show ?thesis using c d k by blast
qed

section \<open>The message factory\<close>

lemma remove_nones_id:
  "distinct (map fst kw) \<Longrightarrow> null_free kw \<Longrightarrow> remove_nones kw = kw"
  by (simp add: remove_nones_filter null_free_def list_all_iff filter_id_conv case_prod_beta)

lemma filter_absent_key:
  "map_of kw key = None \<Longrightarrow> filter (\<lambda>(k, v). k \<noteq> key) kw = kw"
  by (induction kw) (auto split: if_splits)

text \<open>
  Claim C3, as stated, fails twice. A body whose command is \<open>runInTerminal\<close>, the one
  supported command for which the source has a request class of its own, decodes to the
  generic \<open>DAPRequest\<close>, not to a \<open>DAPRunInTerminalRequest\<close>. A body with an
  unrecognized command and the arguments \<open>{"a": null, "b": 1}\<close> decodes to a request
  whose arguments are \<open>{"b": 1}\<close>: the mapping is not carried unchanged.
\<close>

theorem recv_body_counterexample:
  "recv_body (JObj [(''seq'', JInt 1), (''type'', JStr ''request''),
                    (''command'', JStr ''runInTerminal''),
                    (''arguments'', JObj [(''cwd'', JStr ''/tmp''), (''args'', JList [JStr ''ls''])])]) =
     Inr (Some \<lparr>self = DAPRequest (JStr ''runInTerminal'')
                          [(''cwd'', JStr ''/tmp''), (''args'', JList [JStr ''ls''])],
               seq = Some (JInt 1)\<rparr>) \<and>
   DAPRequest (JStr ''runInTerminal'') [(''cwd'', JStr ''/tmp''), (''args'', JList [JStr ''ls''])] \<noteq>
   DAPRunInTerminalRequest (JStr ''runInTerminal'')
     [(''cwd'', JStr ''/tmp''), (''args'', JList [JStr ''ls''])] \<and>
   recv_body (JObj [(''seq'', JInt 2), (''type'', JStr ''request''),
                    (''command'', JStr ''unsupportedXyz''),
                    (''arguments'', JObj [(''a'', JNull), (''b'', JInt 1)])]) =
     Inr (Some \<lparr>self = DAPRequest (JStr ''unsupportedXyz'') [(''b'', JInt 1)],
               seq = Some (JInt 2)\<rparr>) \<and>
   [(''b'', JInt 1)] \<noteq> [(''a'', JNull), (''b'', JInt 1)]"
  by (simp add: recv_body_def NoneDict_getitem_def DAPRequest_init_def remove_nones_def set_seq_def)

text \<open>
  Claim C3, amended. \<open>recv\<close> has one path for every command, supported or not. Given a
  decoded object whose \<open>arguments\<close> is an object with neither a key \<open>command\<close> nor a key
  \<open>self\<close> (or is null or missing, which counts as the empty object), it builds the
  generic \<open>DAPRequest\<close> with the raw command value, the entries of the arguments that are
  not null, in their order, and the \<open>seq\<close> of the body. Arguments without null entries are
  carried unchanged.
\<close>

theorem recv_body_generic_request:
  assumes "NoneDict_getitem b ''arguments'' = JObj kw \<or>
           NoneDict_getitem b ''arguments'' = JNull \<and> kw = []"
    and "map_of kw ''command'' = None"
    and "map_of kw ''self'' = None"
    and "distinct (map fst kw)"
  shows "recv_body (JObj b) =
           Inr (Some \<lparr>self = DAPRequest (NoneDict_getitem b ''command'')
                                (filter (\<lambda>(k, v). v \<noteq> JNull) kw),
                     seq = Some (NoneDict_getitem b ''seq'')\<rparr>) \<and>
         (null_free kw \<longrightarrow> filter (\<lambda>(k, v). v \<noteq> JNull) kw = kw)"
proof -
  have "recv_body (JObj b) =
           Inr (Some \<lparr>self = DAPRequest (NoneDict_getitem b ''command'') (remove_nones kw),
                     seq = Some (NoneDict_getitem b ''seq'')\<rparr>)"
    using assms(1-3)
    by (auto simp: recv_body_def DAPRequest_init_def set_seq_def filter_absent_key)
  moreover have "remove_nones kw = filter (\<lambda>(k, v). v \<noteq> JNull) kw"
    using assms(4) by (rule remove_nones_filter)
  moreover have "null_free kw \<longrightarrow> filter (\<lambda>(k, v). v \<noteq> JNull) kw = kw"
    by (simp add: null_free_def list_all_iff filter_id_conv case_prod_beta)
  ultimately show ?thesis by simp
qed

theorem recv_body_generic_request_witness:
  "NoneDict_getitem [(''seq'', JInt 7), (''command'', JStr ''continue''),
                     (''arguments'', JObj [(''threadId'', JInt 1), (''x'', JNull)])] ''arguments'' =
     JObj [(''threadId'', JInt 1), (''x'', JNull)] \<and>
   map_of [(''threadId'', JInt 1), (''x'', JNull)] ''command'' = None \<and>
   map_of [(''threadId'', JInt 1), (''x'', JNull)] ''self'' = None \<and>
   distinct (map fst [(''threadId'', JInt 1), (''x'', JNull)]) \<and>
   recv_body (JObj [(''seq'', JInt 7), (''command'', JStr ''continue''),
                    (''arguments'', JObj [(''threadId'', JInt 1), (''x'', JNull)])]) =
     Inr (Some \<lparr>self = DAPRequest (JStr ''continue'') [(''threadId'', JInt 1)],
               seq = Some (JInt 7)\<rparr>)"
proof -
  have a: "NoneDict_getitem [(''seq'', JInt 7), (''command'', JStr ''continue''),
                     (''arguments'', JObj [(''threadId'', JInt 1), (''x'', JNull)])] ''arguments'' =
     JObj [(''threadId'', JInt 1), (''x'', JNull)]"
    by (simp add: NoneDict_getitem_def)
  have c: "map_of [(''threadId'', JInt 1), (''x'', JNull)] ''command'' = None" by simp
  have c': "map_of [(''threadId'', JInt 1), (''x'', JNull)] ''self'' = None" by simp
  have d: "distinct (map fst [(''threadId'', JInt 1), (''x'', JNull)])" by simp
  from recv_body_generic_request [OF disjI1 [OF a] c c' d] a c c' d
  show ?thesis by (simp add: NoneDict_getitem_def)
qed

section \<open>Frame reading: the Content-Length header\<close>

text \<open>\<open>int\<close> of a string raises nothing but ValueError.\<close>

lemma int_of_str_error: "int_of_str v = Inl e \<Longrightarrow> e = ValueError"
  by (auto simp: int_of_str_def Let_def split: if_splits)






section \<open>Serialization: unset attributes\<close>
















end
